theory Spec2Isabelle
  imports Complex_Main "HOL-Library.Char_ord" "HOL-Library.List_Lexorder"
begin

section \<open>FinTrackPro: calculation engine and CSV record store\<close>

text \<open>
  The development embeds \<^verbatim>\<open>utils/calculations.py\<close>, \<^verbatim>\<open>utils/data_utils.py\<close> and
  \<^verbatim>\<open>utils/auth_utils.py\<close>.

  Numbers: Python floats are idealised as exact reals, so every statement below is about
  the arithmetic the code writes down, not about IEEE rounding of intermediate results.
  Python integers that steer control flow (years, row indices, ids) are \<^typ>\<open>int\<close>.

  Storage: a CSV file is either absent (\<open>None\<close>) or holds a header and a list of data
  rows (\<open>Some rows\<close>), each row as it was written; \<^verbatim>\<open>to_csv(index=False)\<close> writes the rows
  back as they were, and the row labels of a freshly read frame are the positions
  \<open>0 .. n-1\<close>. \<^verbatim>\<open>pd.read_csv\<close> returns the cells as written, except for the username and
  email columns of the users file, which the functions of \<^verbatim>\<open>auth_utils.py\<close> compare as text:
  there the reader's type inference (NA markers, numbers) is part of the model.
  Every store operation takes the file state and returns its result with the new state.
\<close>

subsection \<open>Python arithmetic that can raise\<close>

datatype py_exception = ZeroDivisionError | AttributeError

text \<open>\<^verbatim>\<open>raise ValueError(f"Error calculating ...: {str(e)}")\<close>: the prefix and the cause.\<close>

datatype error = ValueError string py_exception

definition py_truediv :: "real \<Rightarrow> real \<Rightarrow> py_exception + real" where
  "py_truediv a b = (if b = 0 then Inl ZeroDivisionError else Inr (a / b))"

text \<open>
  \<^verbatim>\<open>x ** n\<close> for a float base and an integer exponent: \<^verbatim>\<open>x ** 0\<close> is 1, a negative
  exponent is the reciprocal, and a zero base with a negative exponent raises.
\<close>

definition py_pow :: "real \<Rightarrow> int \<Rightarrow> py_exception + real" where
  "py_pow x n =
     (if 0 \<le> n then Inr (x ^ nat n)
      else if x = 0 then Inl ZeroDivisionError
      else Inr (1 / x ^ nat (- n)))"

text \<open>\<^verbatim>\<open>round(x)\<close> to the nearest integer, ties to the even neighbour.\<close>

definition py_round :: "real \<Rightarrow> int" where
  "py_round x =
     (let f = \<lfloor>x\<rfloor>; d = x - of_int f
      in if d < 1 / 2 then f
         else if 1 / 2 < d then f + 1
         else if even f then f else f + 1)"

text \<open>\<^verbatim>\<open>round(x, 2)\<close>.\<close>

definition round2 :: "real \<Rightarrow> real" where
  "round2 x = of_int (py_round (x * 100)) / 100"

subsection \<open>\<^verbatim>\<open>calculate_emi\<close>\<close>

definition calculate_emi :: "real \<Rightarrow> real \<Rightarrow> int \<Rightarrow> error + (real \<times> real \<times> real)" where
  "calculate_emi principal' annual_rate tenure_years =
     (let monthly_rate = annual_rate / (12 * 100);
          total_months = tenure_years * 12;
          attempt =
            (if monthly_rate = 0 then py_truediv principal' (of_int total_months)
             else (case py_pow (1 + monthly_rate) total_months of
                     Inl e \<Rightarrow> Inl e
                   | Inr g \<Rightarrow> py_truediv (principal' * monthly_rate * g) (g - 1)))
      in case attempt of
           Inl e \<Rightarrow> Inl (ValueError ''Error calculating EMI: '' e)
         | Inr emi \<Rightarrow>
             (let total_payment = emi * of_int total_months;
                  total_interest = total_payment - principal'
              in Inr (round2 emi, round2 total_payment, round2 total_interest)))"

subsection \<open>\<^verbatim>\<open>calculate_compound_interest\<close>\<close>

text \<open>
  The body of \<^verbatim>\<open>for month in range(total_months)\<close>, run \<open>k\<close> times on the pair
  \<open>(current_amount, total_invested)\<close>.
\<close>

fun growth_loop :: "nat \<Rightarrow> real \<Rightarrow> real \<Rightarrow> real \<times> real \<Rightarrow> real \<times> real" where
  "growth_loop 0 monthly_rate monthly_contribution (current_amount, total_invested) =
     (current_amount, total_invested)"
| "growth_loop (Suc k) monthly_rate monthly_contribution (current_amount, total_invested) =
     growth_loop k monthly_rate monthly_contribution
       (current_amount * (1 + monthly_rate) + monthly_contribution,
        total_invested + monthly_contribution)"

text \<open>
  No operation of the body can raise on numbers (the only division is by the constant
  1200), so the \<^verbatim>\<open>except\<close> branch is never taken; \<^verbatim>\<open>range\<close> of a negative count is empty.
\<close>

definition calculate_compound_interest ::
  "real \<Rightarrow> real \<Rightarrow> real \<Rightarrow> int \<Rightarrow> error + (real \<times> real \<times> real)" where
  "calculate_compound_interest principal' monthly_contribution annual_return years =
     (let monthly_rate = annual_return / (12 * 100);
          total_months = years * 12;
          (current_amount, total_invested) =
             growth_loop (nat total_months) monthly_rate monthly_contribution
               (principal', principal');
          total_returns = current_amount - total_invested
      in Inr (round2 current_amount, round2 total_invested, round2 total_returns))"

subsection \<open>\<^verbatim>\<open>calculate_tax\<close>\<close>

text \<open>A bracket's upper limit: a dollar amount or \<^verbatim>\<open>float('inf')\<close>.\<close>

datatype bound = Finite real | Infinity

definition tax_brackets :: "(bound \<times> real) list" where
  "tax_brackets =
     [(Finite 10275, 0.10),
      (Finite 41775, 0.12),
      (Finite 89450, 0.22),
      (Finite 190750, 0.24),
      (Finite 364200, 0.32),
      (Finite 462550, 0.35),
      (Infinity, 0.37)]"

text \<open>\<^verbatim>\<open>[(limit * 2 if limit != float('inf') else limit, rate) for limit, rate in tax_brackets]\<close>\<close>

definition double_brackets :: "(bound \<times> real) list \<Rightarrow> (bound \<times> real) list" where
  "double_brackets bs =
     map (\<lambda>(limit, rate). (case limit of Finite l \<Rightarrow> Finite (l * 2) | Infinity \<Rightarrow> Infinity, rate)) bs"

text \<open>
  The bracket loop, with both \<^verbatim>\<open>break\<close>s. At an infinite limit
  \<^verbatim>\<open>min(remaining_income, limit - previous_limit)\<close> is \<^verbatim>\<open>remaining_income\<close>, which leaves
  nothing, so the loop ends there; \<^verbatim>\<open>previous_limit\<close> is therefore always finite when read.
\<close>

fun bracket_loop :: "(bound \<times> real) list \<Rightarrow> real \<Rightarrow> real \<Rightarrow> real \<Rightarrow> real" where
  "bracket_loop [] federal_tax remaining_income previous_limit = federal_tax"
| "bracket_loop ((limit, rate) # rest) federal_tax remaining_income previous_limit =
     (if remaining_income \<le> 0 then federal_tax
      else (case limit of
              Finite l \<Rightarrow>
                (let taxable_at_bracket = min remaining_income (l - previous_limit);
                     federal_tax' = federal_tax + taxable_at_bracket * rate;
                     remaining_income' = remaining_income - taxable_at_bracket
                 in if remaining_income' \<le> 0 then federal_tax'
                    else bracket_loop rest federal_tax' remaining_income' l)
            | Infinity \<Rightarrow>
                (let taxable_at_bracket = remaining_income;
                     federal_tax' = federal_tax + taxable_at_bracket * rate
                 in federal_tax')))"

record tax_result =
  annual_income :: real
  total_deductions :: real
  taxable_income :: real
  federal_tax :: real
  after_tax_income :: real
  effective_rate :: real

text \<open>
  The unrounded federal tax of the body, as a function of the inputs. Nothing in the body
  can raise on numbers: the one division is guarded by \<^verbatim>\<open>annual_income > 0\<close>.
\<close>

definition federal_tax_raw :: "real \<Rightarrow> string \<Rightarrow> real \<Rightarrow> real \<Rightarrow> real" where
  "federal_tax_raw income filing_status standard_deduction other_deductions =
     (let deductions = standard_deduction + other_deductions;
          taxable = max 0 (income - deductions);
          brackets = (if filing_status = ''Married Filing Jointly''
                      then double_brackets tax_brackets else tax_brackets)
      in bracket_loop brackets 0 taxable 0)"

definition calculate_tax :: "real \<Rightarrow> string \<Rightarrow> real \<Rightarrow> real \<Rightarrow> error + tax_result" where
  "calculate_tax income filing_status standard_deduction other_deductions =
     (let deductions = standard_deduction + other_deductions;
          taxable = max 0 (income - deductions);
          tax = federal_tax_raw income filing_status standard_deduction other_deductions;
          after_tax = income - tax;
          rate = (if 0 < income then tax / income * 100 else 0)
      in Inr \<lparr>annual_income = round2 income,
              total_deductions = round2 deductions,
              taxable_income = round2 taxable,
              federal_tax = round2 tax,
              after_tax_income = round2 after_tax,
              effective_rate = round2 rate\<rparr>)"

subsection \<open>The record store: rows and files\<close>

text \<open>
  One record per CSV schema of \<^verbatim>\<open>initialize_data_files\<close>. Field names shared by several
  schemas are written qualified (\<open>expense.user_id\<close>, \<open>backlog_task.user_id\<close>,
  \<open>user.user_id\<close>). Since \<open>user_id\<close> and \<open>username\<close> are field names, the parameters
  of that name are called \<open>uid\<close> and \<open>login_name\<close> below. A file that exists and holds no
  data row is \<open>Some []\<close> (\<^verbatim>\<open>df.empty\<close>). The \<^verbatim>\<open>except\<close> branches of the store
  operations answer I/O failures, which are outside this model.
\<close>

record expense =
  expense_id :: int
  user_id :: int
  date :: string
  amount :: real
  category :: string
  description :: string
  payment_method :: string
  "notes" :: string
  created_at :: string

record backlog_task =
  task_id :: int
  user_id :: int
  title :: string
  description :: string
  category :: string
  priority :: string
  status :: string
  due_date :: string
  estimated_amount :: real
  "notes" :: string
  created_at :: string
  updated_at :: string

text \<open>
  The dictionary passed to \<^verbatim>\<open>register_user\<close>. The caller may leave \<^verbatim>\<open>full_name\<close> out,
  or store \<^verbatim>\<open>None\<close> under it.
\<close>

datatype py_field = Absent | IsNone | Str string

record user_data =
  username :: string
  email :: string
  password :: string
  full_name :: py_field

record user =
  user_id :: int
  username :: string
  email :: string
  password_hash :: string
  full_name :: string
  created_at :: string
  last_login :: "string option"
  is_active :: bool

text \<open>
  \<^verbatim>\<open>pd.read_csv(file) if os.path.exists(file) else pd.DataFrame()\<close>: the data rows, none
  for an absent file.
\<close>

definition data_rows :: "'a list option \<Rightarrow> 'a list" where
  "data_rows file = (case file of Some rows \<Rightarrow> rows | None \<Rightarrow> [])"

text \<open>\<^verbatim>\<open>df.drop(label)\<close> on a frame whose labels are the positions.\<close>

definition drop_row :: "nat \<Rightarrow> 'a list \<Rightarrow> 'a list" where
  "drop_row k rows = take k rows @ drop (Suc k) rows"

text \<open>\<^verbatim>\<open>label in df.index\<close> for the index \<open>0 .. n-1\<close> of a freshly read frame.\<close>

definition in_index :: "int \<Rightarrow> 'a list \<Rightarrow> bool" where
  "in_index label rows \<longleftrightarrow> 0 \<le> label \<and> label < int (length rows)"

text \<open>The rows of a frame with their labels.\<close>

definition labelled :: "'a list \<Rightarrow> (int \<times> 'a) list" where
  "labelled rows = map (\<lambda>(i, row). (int i, row)) (enumerate 0 rows)"

text \<open>
  \<^verbatim>\<open>sort_values(key, ascending=False)\<close>. The order pandas gives to rows with equal keys is
  not fixed by the source; here it is the reverse of the stable ascending order, and no
  statement below depends on it.
\<close>

definition sort_values_desc :: "('a \<Rightarrow> string) \<Rightarrow> (int \<times> 'a) list \<Rightarrow> (int \<times> 'a) list" where
  "sort_values_desc key rows = rev (sort_key (\<lambda>(label, row). key row) rows)"

subsection \<open>\<^verbatim>\<open>data_utils.py\<close>: expenses\<close>

definition save_expense :: "expense \<Rightarrow> expense list option \<Rightarrow> bool \<times> expense list option" where
  "save_expense expense_data file =
     (let expenses_df = data_rows file;
          new_id = int (length expenses_df) + 1;
          expense_data' = expense_data\<lparr>expense_id := new_id\<rparr>;
          expenses_df' = (if expenses_df = [] then [expense_data']
                          else expenses_df @ [expense_data'])
      in (True, Some expenses_df'))"

definition load_expenses_data :: "int \<Rightarrow> expense list option \<Rightarrow> (int \<times> expense) list" where
  "load_expenses_data uid file =
     (case file of
        None \<Rightarrow> []
      | Some expenses_df \<Rightarrow>
          if expenses_df = [] then []
          else (let user_expenses =
                      filter (\<lambda>(label, row). expense.user_id row = uid) (labelled expenses_df)
                in if user_expenses \<noteq> [] then sort_values_desc date user_expenses
                   else user_expenses))"

definition delete_expense ::
  "int \<Rightarrow> int \<Rightarrow> expense list option \<Rightarrow> bool \<times> expense list option" where
  "delete_expense expense_index uid file =
     (case file of
        None \<Rightarrow> (False, file)
      | Some expenses_df \<Rightarrow>
          if expenses_df = [] then (False, file)
          else if in_index expense_index expenses_df
          then (let row = expenses_df ! nat expense_index
                in if expense.user_id row = uid
                   then (True, Some (drop_row (nat expense_index) expenses_df))
                   else (False, file))
          else (False, file))"

subsection \<open>\<^verbatim>\<open>data_utils.py\<close>: backlog\<close>

definition save_backlog_item ::
  "backlog_task \<Rightarrow> backlog_task list option \<Rightarrow> bool \<times> backlog_task list option" where
  "save_backlog_item task_data file =
     (let backlog_df = data_rows file;
          new_id = int (length backlog_df) + 1;
          task_data' = task_data\<lparr>task_id := new_id\<rparr>;
          backlog_df' = (if backlog_df = [] then [task_data']
                         else backlog_df @ [task_data'])
      in (True, Some backlog_df'))"

definition load_backlog_data ::
  "int \<Rightarrow> backlog_task list option \<Rightarrow> (int \<times> backlog_task) list" where
  "load_backlog_data uid file =
     (case file of
        None \<Rightarrow> []
      | Some backlog_df \<Rightarrow>
          if backlog_df = [] then []
          else (let user_tasks =
                      filter (\<lambda>(label, row). backlog_task.user_id row = uid) (labelled backlog_df)
                in if user_tasks \<noteq> [] then sort_values_desc backlog_task.created_at user_tasks
                   else user_tasks))"

text \<open>\<open>now\<close> is \<^verbatim>\<open>datetime.now().strftime('%Y-%m-%d %H:%M:%S')\<close> at the time of the call.\<close>

definition update_backlog_status ::
  "string \<Rightarrow> int \<Rightarrow> int \<Rightarrow> string \<Rightarrow> backlog_task list option
     \<Rightarrow> bool \<times> backlog_task list option" where
  "update_backlog_status now task_index uid new_status file =
     (case file of
        None \<Rightarrow> (False, file)
      | Some backlog_df \<Rightarrow>
          if backlog_df = [] then (False, file)
          else if in_index task_index backlog_df
          then (let task = backlog_df ! nat task_index
                in if backlog_task.user_id task = uid
                   then (True,
                         Some (backlog_df[nat task_index :=
                                 task\<lparr>status := new_status, updated_at := now\<rparr>]))
                   else (False, file))
          else (False, file))"

definition delete_backlog_item ::
  "int \<Rightarrow> int \<Rightarrow> backlog_task list option \<Rightarrow> bool \<times> backlog_task list option" where
  "delete_backlog_item task_index uid file =
     (case file of
        None \<Rightarrow> (False, file)
      | Some backlog_df \<Rightarrow>
          if backlog_df = [] then (False, file)
          else if in_index task_index backlog_df
          then (let task = backlog_df ! nat task_index
                in if backlog_task.user_id task = uid
                   then (True, Some (drop_row (nat task_index) backlog_df))
                   else (False, file))
          else (False, file))"

subsection \<open>\<^verbatim>\<open>auth_utils.py\<close>\<close>

text \<open>
  Strings are ASCII: \<^verbatim>\<open>str.lower\<close> maps \<open>A .. Z\<close> to \<open>a .. z\<close> and leaves every other
  character alone, and \<^verbatim>\<open>str.strip\<close> removes the ASCII white space at both ends.
\<close>

definition lower_char :: "char \<Rightarrow> char" where
  "lower_char c =
     (let n = (of_char c :: nat) in if 65 \<le> n \<and> n \<le> 90 then char_of (n + 32) else c)"

definition py_lower :: "string \<Rightarrow> string" where
  "py_lower s = map lower_char s"

definition is_space :: "char \<Rightarrow> bool" where
  "is_space c =
     (let n = (of_char c :: nat) in (9 \<le> n \<and> n \<le> 13) \<or> (28 \<le> n \<and> n \<le> 32))"

definition py_strip :: "string \<Rightarrow> string" where
  "py_strip s = rev (dropWhile is_space (rev (dropWhile is_space s)))"

text \<open>
  What \<^verbatim>\<open>pd.read_csv\<close> makes of the cell of a text column: the text as written, \<^verbatim>\<open>NaN\<close>
  for an NA marker, or a number or boolean when it infers such a type for the column.
\<close>

datatype cell = Text string | NaN | Numeric

fun is_text :: "cell \<Rightarrow> bool" where
  "is_text (Text s) = True"
| "is_text NaN = False"
| "is_text Numeric = False"

text \<open>
  The reader itself is library code, so the functions below take it as the parameter
  \<open>read_column\<close>, from the written cells of one column to the cells of the frame, one
  for each written cell. For a
  column that holds at least one cell that is neither an NA marker, a number nor a
  boolean, pandas keeps every cell as text and turns the NA markers (its default list,
  as of pandas 2) into \<^verbatim>\<open>NaN\<close>; \<open>object_column\<close> is that reading.
\<close>

definition na_markers :: "string list" where
  "na_markers =
     [[], ''#N/A'', ''#N/A N/A'', ''#NA'', ''-1.#IND'', ''-1.#QNAN'', ''-NaN'', ''-nan'',
      ''1.#IND'', ''1.#QNAN'', ''<NA>'', ''N/A'', ''NA'', ''NULL'', ''NaN'', ''None'',
      ''n/a'', ''nan'', ''null'']"

definition object_column :: "string list \<Rightarrow> cell list" where
  "object_column written = map (\<lambda>w. if w \<in> set na_markers then NaN else Text w) written"

text \<open>
  \<^verbatim>\<open>column.str.lower().values\<close>: the accessor raises \<^verbatim>\<open>AttributeError\<close> on a column without
  text (a numeric, boolean or all-NA column); otherwise it lowers the text cells and
  leaves \<^verbatim>\<open>NaN\<close> for the others.
\<close>

definition str_lower :: "cell list \<Rightarrow> py_exception + cell list" where
  "str_lower column =
     (if list_ex is_text column
      then Inr (map (\<lambda>c. case c of Text s \<Rightarrow> Text (py_lower s) | NaN \<Rightarrow> NaN | Numeric \<Rightarrow> NaN)
                  column)
      else Inl AttributeError)"

text \<open>
  \<^verbatim>\<open>register_user\<close>. \<open>hash_password\<close> stands for SHA-256 and \<open>now\<close> for the formatted
  clock; the result is the returned flag, \<^verbatim>\<open>st.session_state.registration_error\<close> as the
  call leaves it (a fixed message, or the prefix and the exception caught), and the file.
  Both \<^verbatim>\<open>.str.lower()\<close> columns are computed before either is searched, and
  \<^verbatim>\<open>name in array\<close> is true when some cell equals the name, which \<^verbatim>\<open>NaN\<close> never does.
  \<^verbatim>\<open>user_data.get('full_name', '').strip()\<close> raises \<^verbatim>\<open>AttributeError\<close> on \<^verbatim>\<open>None\<close>; the
  \<^verbatim>\<open>except\<close> branch reports every exception.
\<close>

datatype registration_error = Rejected string | Raised string py_exception

text \<open>The duplicate check: \<open>None\<close> when it passes.\<close>

definition check_duplicates ::
  "(string list \<Rightarrow> cell list) \<Rightarrow> user_data \<Rightarrow> user list \<Rightarrow> registration_error option" where
  "check_duplicates read_column ud existing_users =
     (if existing_users \<noteq> [] then
        (case str_lower (read_column (map user.username existing_users)) of
           Inl e \<Rightarrow> Some (Raised ''Registration error: '' e)
         | Inr existing_usernames \<Rightarrow>
             (case str_lower (read_column (map user.email existing_users)) of
                Inl e \<Rightarrow> Some (Raised ''Registration error: '' e)
              | Inr existing_emails \<Rightarrow>
                  if Text (py_lower (user_data.username ud)) \<in> set existing_usernames
                  then Some (Rejected ''Username already exists'')
                  else if Text (py_lower (user_data.email ud)) \<in> set existing_emails
                  then Some (Rejected ''Email already exists'')
                  else None))
      else None)"

definition register_user ::
  "(string list \<Rightarrow> cell list) \<Rightarrow> (string \<Rightarrow> string) \<Rightarrow> string \<Rightarrow> user_data \<Rightarrow> user list option
     \<Rightarrow> bool \<times> registration_error option \<times> user list option" where
  "register_user read_column hash_password now ud file =
     (let existing_users = data_rows file
      in case check_duplicates read_column ud existing_users of
           Some err \<Rightarrow> (False, Some err, file)
         | None \<Rightarrow>
             (let new_id = (if existing_users \<noteq> []
                            then Max (set (map user.user_id existing_users)) + 1 else 1)
              in case (case user_data.full_name ud of
                         Absent \<Rightarrow> Inr (py_strip [])
                       | IsNone \<Rightarrow> Inl AttributeError
                       | Str s \<Rightarrow> Inr (py_strip s)) of
                   Inl e \<Rightarrow> (False, Some (Raised ''Registration error: '' e), file)
                 | Inr stripped_name \<Rightarrow>
                     (let new_user =
                            \<lparr>user_id = new_id,
                             username = py_strip (user_data.username ud),
                             email = py_lower (py_strip (user_data.email ud)),
                             password_hash = hash_password (user_data.password ud),
                             full_name = stripped_name,
                             created_at = now,
                             last_login = None,
                             is_active = True\<rparr>;
                          users_df = (if existing_users = [] then [new_user]
                                      else existing_users @ [new_user])
                      in (True, None, Some users_df))))"

text \<open>The dictionary \<^verbatim>\<open>authenticate_user\<close> returns.\<close>

record login_result =
  user_id :: int
  username :: string
  email :: string
  full_name :: string
  last_login :: "string option"


subsection \<open>Sequences of expense operations\<close>

datatype expense_op = Insert expense | Delete int int

fun apply_expense_op :: "expense list option \<Rightarrow> expense_op \<Rightarrow> expense list option" where
  "apply_expense_op file (Insert expense_data) = snd (save_expense expense_data file)"
| "apply_expense_op file (Delete expense_index uid) = snd (delete_expense expense_index uid file)"

definition run_expense_ops :: "expense_op list \<Rightarrow> expense list option \<Rightarrow> expense list option" where
  "run_expense_ops ops file = foldl apply_expense_op file ops"

subsection \<open>The specification's formulations\<close>

text \<open>
  The part of a taxable income \<open>t\<close> that falls into the bracket between \<open>lower\<close> and
  \<open>upper\<close>, and the progressive schedule written as a sum of marginal rates over these
  parts: once with the single filer's bounds, once with every finite bound doubled.
\<close>

definition bracket_share :: "real \<Rightarrow> real \<Rightarrow> real \<Rightarrow> real" where
  "bracket_share lower upper t = max 0 (min t upper - lower)"

definition progressive_tax_single :: "real \<Rightarrow> real" where
  "progressive_tax_single t =
     0.10 * bracket_share 0 10275 t +
     0.12 * bracket_share 10275 41775 t +
     0.22 * bracket_share 41775 89450 t +
     0.24 * bracket_share 89450 190750 t +
     0.32 * bracket_share 190750 364200 t +
     0.35 * bracket_share 364200 462550 t +
     0.37 * max 0 (t - 462550)"

definition progressive_tax_joint :: "real \<Rightarrow> real" where
  "progressive_tax_joint t =
     0.10 * bracket_share 0 20550 t +
     0.12 * bracket_share 20550 83550 t +
     0.22 * bracket_share 83550 178900 t +
     0.24 * bracket_share 178900 381500 t +
     0.32 * bracket_share 381500 728400 t +
     0.35 * bracket_share 728400 925100 t +
     0.37 * max 0 (t - 925100)"

text \<open>
  The per-month simulation of the specification: each month the balance is first
  multiplied by \<open>1 + annual_return / 1200\<close>, then the contribution is added.
\<close>

definition monthly_simulation :: "real \<Rightarrow> real \<Rightarrow> nat \<Rightarrow> real \<Rightarrow> real" where
  "monthly_simulation annual_return contribution months start =
     ((\<lambda>balance. balance * (1 + annual_return / 1200) + contribution) ^^ months) start"

text \<open>
  The row an update or a delete addresses: the one at the position given as its first
  argument, if the file exists and has a row there.
\<close>

definition target_row :: "int \<Rightarrow> 'a list option \<Rightarrow> 'a option" where
  "target_row label file =
     (case file of
        None \<Rightarrow> None
      | Some rows \<Rightarrow> if in_index label rows then Some (rows ! nat label) else None)"

subsection \<open>Example rows\<close>

text \<open>Rows and forms for the concrete instances of the statements below.\<close>

definition lunch :: expense where
  "lunch = \<lparr>expense_id = 1, expense.user_id = 7, date = ''2024-03-01'', amount = 12.5,
             expense.category = ''Food'', expense.description = ''Lunch'',
             payment_method = ''Cash'', expense.notes = [],
             expense.created_at = ''2024-03-01 12:30:00''\<rparr>"

definition taxi :: expense where
  "taxi = \<lparr>expense_id = 2, expense.user_id = 7, date = ''2024-03-02'', amount = 30,
            expense.category = ''Transport'', expense.description = ''Taxi'',
            payment_method = ''Card'', expense.notes = [],
            expense.created_at = ''2024-03-02 08:00:00''\<rparr>"

definition books :: expense where
  "books = \<lparr>expense_id = 0, expense.user_id = 7, date = ''2024-03-03'', amount = 45,
             expense.category = ''Education'', expense.description = ''Books'',
             payment_method = ''Card'', expense.notes = [],
             expense.created_at = ''2024-03-03 17:45:00''\<rparr>"

definition file_taxes :: backlog_task where
  "file_taxes = \<lparr>task_id = 1, backlog_task.user_id = 7, title = ''File taxes'',
                  backlog_task.description = ''Annual return'',
                  backlog_task.category = ''Tax'', priority = ''High'', status = ''Pending'',
                  due_date = ''2024-04-15'', estimated_amount = 0, backlog_task.notes = [],
                  backlog_task.created_at = ''2024-01-01 09:00:00'',
                  updated_at = ''2024-01-01 09:00:00''\<rparr>"

definition alice :: user where
  "alice = \<lparr>user.user_id = 5, user.username = ''Alice'', user.email = ''alice@example.com'',
             password_hash = ''h1'', user.full_name = ''Alice A'',
             user.created_at = ''2024-01-01 00:00:00'', user.last_login = None,
             is_active = True\<rparr>"


definition nobody :: user where
  "nobody = \<lparr>user.user_id = 6, user.username = ''null'', user.email = ''n@example.com'',
              password_hash = ''h3'', user.full_name = ''N N'',
              user.created_at = ''2024-01-05 00:00:00'', user.last_login = None,
              is_active = True\<rparr>"


definition bob_form :: user_data where
  "bob_form = \<lparr>user_data.username = ''bob'', user_data.email = ''bob@example.com'',
                password = ''secret'', user_data.full_name = Str ''Bob B''\<rparr>"

section \<open>Properties of the calculation engine\<close>

subsection \<open>Rounding\<close>

lemma py_round_bounds: "\<lfloor>x\<rfloor> \<le> py_round x" "py_round x \<le> \<lfloor>x\<rfloor> + 1"
  by (simp_all add: py_round_def Let_def)

lemma py_round_mono:
  assumes "x \<le> y"
  shows "py_round x \<le> py_round y"
proof (cases "\<lfloor>x\<rfloor> = \<lfloor>y\<rfloor>")
  case True
  with assms show ?thesis
    by (auto simp: py_round_def Let_def)
next
  case False
  with assms have "\<lfloor>x\<rfloor> + 1 \<le> \<lfloor>y\<rfloor>"
    using floor_mono [of x y] by linarith
  with py_round_bounds(2) [of x] py_round_bounds(1) [of y] show ?thesis
    by linarith
qed

lemma round2_mono: "x \<le> y \<Longrightarrow> round2 x \<le> round2 y"
  by (simp add: round2_def py_round_mono divide_right_mono)

subsection \<open>When the EMI calculation raises\<close>

lemma even_power_eq_1_iff:
  fixes x :: real
  assumes "0 < k" "even k"
  shows "x ^ k = 1 \<longleftrightarrow> \<bar>x\<bar> = 1"
proof -
  have "x ^ k = \<bar>x\<bar> ^ k"
    using assms(2) by (simp add: power_even_abs)
  moreover have "\<bar>x\<bar> ^ k = 1 ^ k \<longleftrightarrow> \<bar>x\<bar> = 1"
    using assms(1) by (intro power_eq_iff_eq_base) auto
  ultimately show ?thesis by simp
qed

lemma emi_months_even: "even (nat (n * 12))" "even (nat (- (n * 12)))"
  by (cases "0 \<le> n"; simp add: even_nat_iff)+

text \<open>
  Claim C4, as amended. \<^verbatim>\<open>calculate_emi\<close> checks no sign: the presentation layer bounds the
  inputs. It raises its \<^verbatim>\<open>ValueError\<close> exactly when the arithmetic divides by zero, that is
  for a tenure of 0 (whatever the principal and the rate), for the rate -2400 (monthly
  factor -1, whose even powers are 1), and for the rate -1200 with a negative tenure (zero
  to a negative power). Every other input, a non-positive principal, a rate of 0 or below
  and a negative tenure included, yields a numeric triple; and
  \<^verbatim>\<open>calculate_compound_interest\<close> never raises.
\<close>

theorem calculate_emi_raises_iff:
  "((\<exists>e. calculate_emi p r n = Inl e) \<longleftrightarrow> n = 0 \<or> r = - 2400 \<or> (r = - 1200 \<and> n < 0)) \<and>
   (\<exists>res. calculate_compound_interest p c r n = Inr res)"
proof
  show "\<exists>res. calculate_compound_interest p c r n = Inr res"
    by (simp add: calculate_compound_interest_def Let_def split: prod.splits)
  show "(\<exists>e. calculate_emi p r n = Inl e) \<longleftrightarrow> n = 0 \<or> r = - 2400 \<or> (r = - 1200 \<and> n < 0)"
  proof (cases "r = 0")
    case True
    then show ?thesis
      by (simp add: calculate_emi_def py_truediv_def Let_def)
  next
    case r: False
    show ?thesis
    proof (cases "n = 0")
      case True
      then show ?thesis using r
        by (simp add: calculate_emi_def py_truediv_def py_pow_def Let_def)
    next
      case n: False
      show ?thesis
      proof (cases "0 \<le> n")
        case True
        with n have pos: "0 < nat (n * 12)" by simp
        have "(1 + r / 1200) ^ nat (n * 12) = 1 \<longleftrightarrow> \<bar>1 + r / 1200\<bar> = 1"
          using even_power_eq_1_iff [OF pos emi_months_even(1)] .
        also have "\<dots> \<longleftrightarrow> r = - 2400"
          using r by (auto simp: abs_if split: if_splits)
        finally show ?thesis using r n True
          by (simp add: calculate_emi_def py_truediv_def py_pow_def Let_def)
      next
        case False
        then have pos: "0 < nat (- (n * 12))" by simp
        have "(1 + r / 1200) ^ nat (- (n * 12)) = 1 \<longleftrightarrow> \<bar>1 + r / 1200\<bar> = 1"
          using even_power_eq_1_iff [OF pos emi_months_even(2)] .
        also have "\<dots> \<longleftrightarrow> r = - 2400"
          using r by (auto simp: abs_if split: if_splits)
        finally have one: "(1 + r / 1200) ^ nat (- (n * 12)) = 1 \<longleftrightarrow> r = - 2400" .
        have zero: "1 + r / 1200 = 0 \<longleftrightarrow> r = - 1200" by auto
        show ?thesis using r n False one zero
          by (auto simp add: calculate_emi_def py_truediv_def py_pow_def Let_def)
      qed
    qed
  qed
qed

text \<open>
  Claim C4 as stated fails: a rate of 0 is non-positive, and a loan of 1200 over one
  year at that rate returns the payment 100 instead of raising.
\<close>

theorem calculate_emi_zero_rate_returns:
  "calculate_emi 1200 0 1 = Inr (100, 1200, 0)"
  by (simp add: calculate_emi_def py_truediv_def Let_def round2_def py_round_def)

subsection \<open>Compound growth is the monthly simulation\<close>

lemma growth_loop_eq:
  "growth_loop k m c (a, t) = (((\<lambda>b. b * (1 + m) + c) ^^ k) a, t + of_nat k * c)"
proof (induction k arbitrary: a t)
  case 0
  show ?case by simp
next
  case (Suc k)
  let ?f = "\<lambda>b. b * (1 + m) + c"
  have "growth_loop (Suc k) m c (a, t) = growth_loop k m c (?f a, t + c)"
    by simp
  also have "\<dots> = ((?f ^^ k) (?f a), t + c + of_nat k * c)"
    by (rule Suc.IH)
  also have "(?f ^^ k) (?f a) = (?f ^^ Suc k) a"
    using funpow_swap1 [of ?f k a] by simp
  also have "t + c + of_nat k * c = t + of_nat (Suc k) * c"
    by (simp add: algebra_simps)
  finally show ?case .
qed

lemma calculate_compound_interest_eq:
  assumes "0 \<le> years"
  shows "calculate_compound_interest p c r years =
     Inr (round2 (monthly_simulation r c (nat (12 * years)) p),
          round2 (p + 12 * of_int years * c),
          round2 (monthly_simulation r c (nat (12 * years)) p - (p + 12 * of_int years * c)))"
proof -
  have n: "nat (years * 12) = nat (12 * years)"
    by (simp add: mult.commute)
  have k: "real (nat (12 * years)) = 12 * of_int years"
    using assms by simp
  show ?thesis
    unfolding calculate_compound_interest_def monthly_simulation_def Let_def n growth_loop_eq k
    by (simp add: mult.commute)
qed

lemma round2_of_int: "round2 (of_int k) = of_int k"
  by (simp add: round2_def py_round_def)

text \<open>
  Claim C7. For a number of years that is not negative, \<^verbatim>\<open>calculate_compound_interest\<close>
  returns the rounded result of the per-month simulation over \<open>12 * years\<close> months (growth
  first, contribution second), with the total invested \<open>principal + 12 * years *
  contribution\<close> and the returns their difference; and for principal 0, contribution 100,
  return 0 and one year the final amount is exactly 1200.
\<close>

theorem calculate_compound_interest_simulation:
  "(0 \<le> years \<longrightarrow>
      calculate_compound_interest p c r years =
        Inr (round2 (monthly_simulation r c (nat (12 * years)) p),
             round2 (p + 12 * of_int years * c),
             round2 (monthly_simulation r c (nat (12 * years)) p
                       - (p + 12 * of_int years * c)))) \<and>
   calculate_compound_interest 0 100 0 1 = Inr (1200, 1200, 0)"
proof (intro conjI impI)
  assume "0 \<le> years"
  then show "calculate_compound_interest p c r years =
        Inr (round2 (monthly_simulation r c (nat (12 * years)) p),
             round2 (p + 12 * of_int years * c),
             round2 (monthly_simulation r c (nat (12 * years)) p
                       - (p + 12 * of_int years * c)))"
    by (rule calculate_compound_interest_eq)
next
  have "monthly_simulation 0 100 12 0 = 1200"
    by (simp add: monthly_simulation_def eval_nat_numeral)
  then show "calculate_compound_interest 0 100 0 1 = Inr (1200, 1200, 0)"
    using calculate_compound_interest_eq [of 1 0 100 0] round2_of_int [of 1200] round2_of_int [of 0]
    by simp
qed

theorem calculate_compound_interest_simulation_witness:
  "(0::int) \<le> 2 \<and> monthly_simulation 0 100 24 1000 = 3400 \<and>
   calculate_compound_interest 1000 100 0 2 = Inr (3400, 3400, 0)"
proof -
  have sim: "monthly_simulation 0 100 24 1000 = 3400"
    by (simp add: monthly_simulation_def eval_nat_numeral)
  show ?thesis
    using calculate_compound_interest_simulation [of 2 1000 100 0] sim
      round2_of_int [of 3400] round2_of_int [of 0]
    by simp
qed

subsection \<open>The bracket loop and the progressive schedule\<close>

lemmas schedule_defs =
  tax_brackets_def double_brackets_def progressive_tax_single_def progressive_tax_joint_def
  bracket_share_def Let_def

lemma bracket_loop_single: "bracket_loop tax_brackets 0 t 0 = progressive_tax_single t"
proof -
  consider "t \<le> 0" | "0 < t" "t \<le> 10275" | "10275 < t" "t \<le> 41775"
    | "41775 < t" "t \<le> 89450" | "89450 < t" "t \<le> 190750"
    | "190750 < t" "t \<le> 364200" | "364200 < t" "t \<le> 462550" | "462550 < t"
    by linarith
  then show ?thesis
    by cases (simp_all add: schedule_defs)
qed

lemma bracket_loop_joint:
  "bracket_loop (double_brackets tax_brackets) 0 t 0 = progressive_tax_joint t"
proof -
  consider "t \<le> 0" | "0 < t" "t \<le> 20550" | "20550 < t" "t \<le> 83550"
    | "83550 < t" "t \<le> 178900" | "178900 < t" "t \<le> 381500"
    | "381500 < t" "t \<le> 728400" | "728400 < t" "t \<le> 925100" | "925100 < t"
    by linarith
  then show ?thesis
    by cases (simp_all add: schedule_defs)
qed

lemma federal_tax_raw_eq:
  "federal_tax_raw income filing_status sd od =
     (if filing_status = ''Married Filing Jointly''
      then progressive_tax_joint (max 0 (income - sd - od))
      else progressive_tax_single (max 0 (income - sd - od)))"
  by (simp add: federal_tax_raw_def bracket_loop_joint bracket_loop_single Let_def
      diff_diff_eq)

text \<open>
  Claim C3. \<^verbatim>\<open>calculate_tax\<close> returns, rounded to two decimals, the taxable income
  \<open>max 0 (income - standard deduction - other deductions)\<close> and the tax that the seven
  brackets with bounds 10275, 41775, 89450, 190750, 364200, 462550 and infinity and rates
  10, 12, 22, 24, 32, 35 and 37 percent put on it (the bounds doubled for "Married Filing
  Jointly"); for income 40000, status Single, deductions 12950 and 0 the taxable income is
  27050 and the tax \<open>10275 * 0.10 + (27050 - 10275) * 0.12\<close>.
\<close>

theorem calculate_tax_progressive_schedule:
  "(\<exists>res. calculate_tax income filing_status sd od = Inr res \<and>
       taxable_income res = round2 (max 0 (income - sd - od)) \<and>
       federal_tax res =
         round2 (if filing_status = ''Married Filing Jointly''
                 then progressive_tax_joint (max 0 (income - sd - od))
                 else progressive_tax_single (max 0 (income - sd - od)))) \<and>
   (\<exists>res. calculate_tax 40000 ''Single'' 12950 0 = Inr res \<and>
       taxable_income res = 27050 \<and>
       federal_tax res = 10275 * 0.10 + (27050 - 10275) * 0.12)"
proof
  show "\<exists>res. calculate_tax income filing_status sd od = Inr res \<and>
       taxable_income res = round2 (max 0 (income - sd - od)) \<and>
       federal_tax res =
         round2 (if filing_status = ''Married Filing Jointly''
                 then progressive_tax_joint (max 0 (income - sd - od))
                 else progressive_tax_single (max 0 (income - sd - od)))"
    by (simp add: calculate_tax_def Let_def federal_tax_raw_eq diff_diff_eq)
  have raw: "federal_tax_raw 40000 ''Single'' 12950 0 = 6081 / 2"
    by (simp add: federal_tax_raw_eq progressive_tax_single_def bracket_share_def)
  have rounded: "round2 (6081 / 2) = 6081 / 2" "round2 27050 = 27050"
    by (simp_all add: round2_def py_round_def Let_def)
  show "\<exists>res. calculate_tax 40000 ''Single'' 12950 0 = Inr res \<and>
       taxable_income res = 27050 \<and>
       federal_tax res = 10275 * 0.10 + (27050 - 10275) * 0.12"
    by (simp add: calculate_tax_def Let_def raw rounded)
qed

subsection \<open>Doubling the brackets never raises the tax\<close>

lemma bracket_share_diff:
  "lower \<le> upper \<Longrightarrow> bracket_share lower upper t = max 0 (t - lower) - max 0 (t - upper)"
  by (auto simp: bracket_share_def min_def max_def)

text \<open>
  Both schedules are sums of the rate increments over \<open>a b = max 0 (t - b)\<close>, the income
  above the bound \<open>b\<close>; doubling a bound can only shrink that part.
\<close>

lemma joint_le_single: "progressive_tax_joint t \<le> progressive_tax_single t"
proof -
  define a where "a b = max 0 (t - b)" for b
  have le: "a 20550 \<le> a 10275" "a 83550 \<le> a 41775" "a 178900 \<le> a 89450"
    "a 381500 \<le> a 190750" "a 728400 \<le> a 364200" "a 925100 \<le> a 462550"
    by (simp_all add: a_def max_def)
  have share: "bracket_share lower upper t = a lower - a upper" if "lower \<le> upper" for lower upper
    using that by (simp add: a_def bracket_share_diff)
  have top: "max 0 (t - b) = a b" for b
    by (simp add: a_def)
  have s: "progressive_tax_single t =
      (10 * (a 0 - a 10275) + 12 * (a 10275 - a 41775) + 22 * (a 41775 - a 89450) +
       24 * (a 89450 - a 190750) + 32 * (a 190750 - a 364200) +
       35 * (a 364200 - a 462550) + 37 * a 462550) / 100"
    unfolding progressive_tax_single_def top
    by (simp add: share add_divide_distrib diff_divide_distrib)
  have j: "progressive_tax_joint t =
      (10 * (a 0 - a 20550) + 12 * (a 20550 - a 83550) + 22 * (a 83550 - a 178900) +
       24 * (a 178900 - a 381500) + 32 * (a 381500 - a 728400) +
       35 * (a 728400 - a 925100) + 37 * a 925100) / 100"
    unfolding progressive_tax_joint_def top
    by (simp add: share add_divide_distrib diff_divide_distrib)
  have "10 * (a 0 - a 20550) + 12 * (a 20550 - a 83550) + 22 * (a 83550 - a 178900) +
       24 * (a 178900 - a 381500) + 32 * (a 381500 - a 728400) +
       35 * (a 728400 - a 925100) + 37 * a 925100
     \<le> 10 * (a 0 - a 10275) + 12 * (a 10275 - a 41775) + 22 * (a 41775 - a 89450) +
       24 * (a 89450 - a 190750) + 32 * (a 190750 - a 364200) +
       35 * (a 364200 - a 462550) + 37 * a 462550"
    using le by argo
  then show ?thesis
    unfolding s j by (simp only: divide_right_mono zero_le_numeral)
qed

text \<open>
  Claim C8. For every income and every pair of deductions, the federal tax returned for
  "Married Filing Jointly" is at most the one returned for any filing status on the same
  inputs, "Single" among them.
\<close>

theorem joint_tax_le_single_tax:
  "\<exists>joint other.
     calculate_tax income ''Married Filing Jointly'' sd od = Inr joint \<and>
     calculate_tax income filing_status sd od = Inr other \<and>
     federal_tax joint \<le> federal_tax other"
proof -
  let ?t = "max 0 (income - sd - od)"
  have "federal_tax_raw income ''Married Filing Jointly'' sd od
          \<le> federal_tax_raw income filing_status sd od"
    using joint_le_single [of ?t] by (simp add: federal_tax_raw_eq)
  then show ?thesis
    by (simp add: calculate_tax_def Let_def round2_mono)
qed

section \<open>Properties of the record store\<close>

subsection \<open>Queries and positions\<close>

lemma set_labelled: "set (labelled rows) = {(int i, rows ! i) | i. i < length rows}"
  by (auto simp: labelled_def in_set_enumerate_eq image_iff)

lemma labelled_Nil: "labelled [] = []"
  by (simp add: labelled_def)

lemma set_sort_values_desc: "set (sort_values_desc key rows) = set rows"
  by (simp add: sort_values_desc_def)

lemma set_sorted_or_same:
  "set (if rows \<noteq> [] then sort_values_desc key rows else rows) = set rows"
  by (simp add: set_sort_values_desc)

text \<open>A query returns the caller's rows, each under its position in the file.\<close>

lemma set_load_expenses_data:
  "set (load_expenses_data uid (Some rows)) =
     {(int i, rows ! i) | i. i < length rows \<and> expense.user_id (rows ! i) = uid}"
proof -
  have "set (load_expenses_data uid (Some rows)) =
      set (filter (\<lambda>(label, row). expense.user_id row = uid) (labelled rows))"
  proof (cases "rows = []")
    case True
    then show ?thesis by (simp add: load_expenses_data_def labelled_Nil)
  next
    case False
    then show ?thesis
      by (simp add: load_expenses_data_def Let_def set_sorted_or_same split del: if_split)
  qed
  then show ?thesis
    by (auto simp: set_labelled)
qed

lemma set_load_backlog_data:
  "set (load_backlog_data uid (Some rows)) =
     {(int i, rows ! i) | i. i < length rows \<and> backlog_task.user_id (rows ! i) = uid}"
proof -
  have "set (load_backlog_data uid (Some rows)) =
      set (filter (\<lambda>(label, row). backlog_task.user_id row = uid) (labelled rows))"
  proof (cases "rows = []")
    case True
    then show ?thesis by (simp add: load_backlog_data_def labelled_Nil)
  next
    case False
    then show ?thesis
      by (simp add: load_backlog_data_def Let_def set_sorted_or_same split del: if_split)
  qed
  then show ?thesis
    by (auto simp: set_labelled)
qed

lemma load_expenses_data_None: "load_expenses_data uid None = []"
  by (simp add: load_expenses_data_def)

lemma load_backlog_data_None: "load_backlog_data uid None = []"
  by (simp add: load_backlog_data_def)

lemma nth_drop_row:
  "j < length rows - 1 \<Longrightarrow> k < length rows \<Longrightarrow>
     drop_row k rows ! j = rows ! (if j < k then j else Suc j)"
  by (auto simp: drop_row_def nth_append min_def)

lemma length_drop_row: "k < length rows \<Longrightarrow> length (drop_row k rows) = length rows - 1"
  by (auto simp: drop_row_def)

lemma drop_row_distinct:
  assumes "distinct (map f rows)" "k < length rows"
  shows "f (rows ! k) \<notin> f ` set (drop_row k rows)"
proof -
  have "rows = take k rows @ rows ! k # drop (Suc k) rows"
    using assms(2) by (rule id_take_nth_drop)
  then have "map f rows = map f (take k rows) @ f (rows ! k) # map f (drop (Suc k) rows)"
    by (metis list.simps(9) map_append)
  with assms(1) have "f (rows ! k) \<notin> set (map f (take k rows)) \<union> set (map f (drop (Suc k) rows))"
    by (metis distinct_append distinct.simps(2) Un_iff disjoint_iff list.set_intros(1))
  then show ?thesis
    by (simp add: drop_row_def image_Un)
qed

subsection \<open>Identifiers given by the inserts\<close>

lemma data_rows_simps: "data_rows None = []" "data_rows (Some rows) = rows"
  by (simp_all add: data_rows_def)

lemma save_expense_result:
  "save_expense e file =
     (True, Some (data_rows file @ [e\<lparr>expense_id := int (length (data_rows file)) + 1\<rparr>]))"
  by (simp add: save_expense_def Let_def)

lemma save_backlog_item_result:
  "save_backlog_item t file =
     (True, Some (data_rows file @ [t\<lparr>task_id := int (length (data_rows file)) + 1\<rparr>]))"
  by (simp add: save_backlog_item_def Let_def)

lemma register_user_success:
  assumes "fst (register_user read_column h now ud file)"
  shows "\<exists>u. snd (snd (register_user read_column h now ud file)) = Some (data_rows file @ [u]) \<and>
             user.user_id u =
               (if data_rows file = [] then 1
                else Max (set (map user.user_id (data_rows file))) + 1)"
  using assms
  by (auto simp: register_user_def Let_def split: if_splits option.splits py_field.splits)

lemma Max_ids_upto:
  assumes "set ids = {1..int (length ids)}" "ids \<noteq> []"
  shows "Max (set ids) = int (length ids)"
proof -
  have "0 < length ids" using assms(2) by simp
  then have "Max {1..int (length ids)} = int (length ids)"
    by (intro Max_eqI) (simp_all add: Suc_le_eq)
  with assms(1) show ?thesis by simp
qed

lemma py_lower_examples:
  "py_lower ''bob'' = ''bob''" "py_lower ''Alice'' = ''alice''" "py_lower ''alice'' = ''alice''"
  "py_lower '' alice'' = '' alice''" "py_lower ''NULL'' = ''null''"
  "py_lower ''null'' = ''null''"
  "py_lower ''bob@example.com'' = ''bob@example.com''"
  "py_lower ''alice@example.com'' = ''alice@example.com''"
  "py_lower ''al@example.com'' = ''al@example.com''"
  "py_lower ''n@example.com'' = ''n@example.com''"
  by code_simp+

lemma py_strip_examples:
  "py_strip ''bob'' = ''bob''" "py_strip ''Bob B'' = ''Bob B''"
  "py_strip ''bob@example.com'' = ''bob@example.com''"
  "py_strip '' alice'' = ''alice''" "py_strip ''Al'' = ''Al''"
  "py_strip ''al@example.com'' = ''al@example.com''" "py_strip ''NULL'' = ''NULL''"
  by code_simp+

text \<open>
  Claim C1, as amended. An expense and a backlog task get the number of data rows plus 1
  as their id, an absent file counting as no rows. A user that is registered gets 1 when
  the file is absent or has no row, and otherwise the largest stored \<open>user_id\<close> plus 1;
  that is the number of rows plus 1 whenever the stored ids are exactly \<open>1 .. n\<close>.
\<close>

theorem insert_id_assignment:
  "save_expense e efile =
     (True, Some (data_rows efile @ [e\<lparr>expense_id := int (length (data_rows efile)) + 1\<rparr>])) \<and>
   save_backlog_item t bfile =
     (True, Some (data_rows bfile @ [t\<lparr>task_id := int (length (data_rows bfile)) + 1\<rparr>])) \<and>
   (fst (register_user read_column h now ud ufile) \<longrightarrow>
      (\<exists>u. snd (snd (register_user read_column h now ud ufile)) = Some (data_rows ufile @ [u]) \<and>
           user.user_id u =
             (if data_rows ufile = [] then 1
              else Max (set (map user.user_id (data_rows ufile))) + 1) \<and>
           (set (map user.user_id (data_rows ufile)) = {1..int (length (data_rows ufile))} \<longrightarrow>
              user.user_id u = int (length (data_rows ufile)) + 1)))"
proof (intro conjI impI)
  show "save_expense e efile =
     (True, Some (data_rows efile @ [e\<lparr>expense_id := int (length (data_rows efile)) + 1\<rparr>]))"
    by (rule save_expense_result)
  show "save_backlog_item t bfile =
     (True, Some (data_rows bfile @ [t\<lparr>task_id := int (length (data_rows bfile)) + 1\<rparr>]))"
    by (rule save_backlog_item_result)
  assume ok: "fst (register_user read_column h now ud ufile)"
  from register_user_success [OF ok] obtain u
    where u: "snd (snd (register_user read_column h now ud ufile)) = Some (data_rows ufile @ [u])"
      and uid: "user.user_id u =
             (if data_rows ufile = [] then 1
              else Max (set (map user.user_id (data_rows ufile))) + 1)"
    by blast
  have "user.user_id u = int (length (data_rows ufile)) + 1"
    if "set (map user.user_id (data_rows ufile)) = {1..int (length (data_rows ufile))}"
  proof (cases "data_rows ufile = []")
    case True
    with uid show ?thesis by simp
  next
    case False
    with Max_ids_upto [of "map user.user_id (data_rows ufile)"] that uid
    show ?thesis by simp
  qed
  with u uid
  show "\<exists>u. snd (snd (register_user read_column h now ud ufile)) = Some (data_rows ufile @ [u]) \<and>
           user.user_id u =
             (if data_rows ufile = [] then 1
              else Max (set (map user.user_id (data_rows ufile))) + 1) \<and>
           (set (map user.user_id (data_rows ufile)) = {1..int (length (data_rows ufile))} \<longrightarrow>
              user.user_id u = int (length (data_rows ufile)) + 1)"
    by blast
qed

theorem insert_id_assignment_witness:
  "fst (register_user object_column (\<lambda>pw. ''h2'') ''2024-02-02 10:00:00'' bob_form
          (Some [alice\<lparr>user.user_id := 1\<rparr>])) \<and>
   set (map user.user_id (data_rows (Some [alice\<lparr>user.user_id := 1\<rparr>]))) =
     {1..int (length (data_rows (Some [alice\<lparr>user.user_id := 1\<rparr>])))} \<and>
   (\<exists>u. snd (snd (register_user object_column (\<lambda>pw. ''h2'') ''2024-02-02 10:00:00'' bob_form
                     (Some [alice\<lparr>user.user_id := 1\<rparr>]))) =
          Some ([alice\<lparr>user.user_id := 1\<rparr>] @ [u]) \<and>
        user.user_id u = 2)"
proof -
  have ok: "fst (register_user object_column (\<lambda>pw. ''h2'') ''2024-02-02 10:00:00'' bob_form
          (Some [alice\<lparr>user.user_id := 1\<rparr>]))"
    by (simp add: register_user_def check_duplicates_def str_lower_def object_column_def
        na_markers_def data_rows_def alice_def bob_form_def Let_def
        py_lower_examples py_strip_examples)
  have ids: "set (map user.user_id (data_rows (Some [alice\<lparr>user.user_id := 1\<rparr>]))) =
     {1..int (length (data_rows (Some [alice\<lparr>user.user_id := 1\<rparr>])))}"
    by (simp add: data_rows_def)
  from insert_id_assignment
    [where read_column = object_column and h = "\<lambda>pw. ''h2''" and now = "''2024-02-02 10:00:00''" and ud = bob_form
       and ufile = "Some [alice\<lparr>user.user_id := 1\<rparr>]"]
  show ?thesis
    using ok ids by (auto simp: data_rows_def)
qed

text \<open>
  Claim C1 as stated fails for users: with the single stored user of id 5, the next
  registration gets the id 6, not the number of rows plus 1, which is 2.
\<close>

theorem register_user_max_plus_one:
  "register_user object_column (\<lambda>pw. ''h2'') ''2024-02-02 10:00:00'' bob_form (Some [alice]) =
     (True, None,
      Some [alice,
            \<lparr>user.user_id = 6, user.username = ''bob'', user.email = ''bob@example.com'',
             password_hash = ''h2'', user.full_name = ''Bob B'',
             user.created_at = ''2024-02-02 10:00:00'', user.last_login = None,
             is_active = True\<rparr>]) \<and>
   (6::int) \<noteq> int (length (data_rows (Some [alice]))) + 1"
  by (simp add: register_user_def check_duplicates_def str_lower_def object_column_def
      na_markers_def data_rows_def alice_def bob_form_def Let_def
      py_lower_examples py_strip_examples)

subsection \<open>Expense ids can collide\<close>

lemma collision_run:
  "run_expense_ops [Insert lunch, Insert taxi, Delete 0 7, Insert books] (Some []) =
     Some [taxi, books\<lparr>expense_id := 2\<rparr>]"
  "run_expense_ops [Insert lunch, Insert taxi, Delete 0 7, Insert books] None =
     Some [taxi, books\<lparr>expense_id := 2\<rparr>]"
  by (simp_all add: run_expense_ops_def save_expense_def delete_expense_def data_rows_def
      in_index_def drop_row_def lunch_def taxi_def books_def Let_def)

text \<open>
  Claim C2. Some sequence of expense inserts and deletes, run on the empty expense table
  (a file with no data row, or no file), ends in a table where two different rows at two
  positions carry the same \<open>expense_id\<close>: insert two expenses, delete the first, insert a
  third.
\<close>

theorem duplicate_expense_ids_reachable:
  "\<exists>ops rows i j.
     run_expense_ops ops (Some []) = Some rows \<and> run_expense_ops ops None = Some rows \<and>
     i < j \<and> j < length rows \<and> rows ! i \<noteq> rows ! j \<and>
     expense_id (rows ! i) = expense_id (rows ! j)"
proof (intro exI conjI)
  show "run_expense_ops [Insert lunch, Insert taxi, Delete 0 7, Insert books] (Some []) =
     Some [taxi, books\<lparr>expense_id := 2\<rparr>]"
    by (rule collision_run)
  show "run_expense_ops [Insert lunch, Insert taxi, Delete 0 7, Insert books] None =
     Some [taxi, books\<lparr>expense_id := 2\<rparr>]"
    by (rule collision_run)
  show "(0::nat) < 1" by simp
  show "1 < length [taxi, books\<lparr>expense_id := 2\<rparr>]" by simp
  show "[taxi, books\<lparr>expense_id := 2\<rparr>] ! 0 \<noteq> [taxi, books\<lparr>expense_id := 2\<rparr>] ! 1"
    by (simp add: taxi_def books_def)
  show "expense_id ([taxi, books\<lparr>expense_id := 2\<rparr>] ! 0) =
        expense_id ([taxi, books\<lparr>expense_id := 2\<rparr>] ! 1)"
    by (simp add: taxi_def)
qed

subsection \<open>Deleting an expense\<close>

text \<open>
  Claim C5, as amended. \<^verbatim>\<open>delete_expense\<close> takes the position of a row in the file (the
  label a query returns with the row), not its \<open>expense_id\<close>. For every row that the
  caller's query returns under the position \<open>k\<close>, \<open>delete_expense k\<close> succeeds and removes
  exactly the row at that position, the others keeping their order; and when the expense
  ids of the file are pairwise different, no row of a following query carries the id of
  the removed row.
\<close>

theorem delete_expense_by_position:
  assumes "(k, e) \<in> set (load_expenses_data uid file)"
  shows "\<exists>rows. file = Some rows \<and> in_index k rows \<and> rows ! nat k = e \<and>
           delete_expense k uid file = (True, Some (drop_row (nat k) rows)) \<and>
           length (drop_row (nat k) rows) = length rows - 1 \<and>
           (\<forall>j < length rows - 1.
               drop_row (nat k) rows ! j = rows ! (if j < nat k then j else Suc j)) \<and>
           (distinct (map expense_id rows) \<longrightarrow>
              expense_id e \<notin> expense_id ` snd `
                 set (load_expenses_data uid (Some (drop_row (nat k) rows))))"
proof -
  from assms obtain rows where f: "file = Some rows"
    by (cases "file") (simp_all add: load_expenses_data_None)
  with assms obtain i where i: "i < length rows"
    and k: "k = int i" and e: "e = rows ! i" and own: "expense.user_id (rows ! i) = uid"
    by (auto simp: set_load_expenses_data)
  have ne: "rows \<noteq> []" using i by auto
  have idx: "in_index k rows" using i k by (simp add: in_index_def)
  have del: "delete_expense k uid file = (True, Some (drop_row (nat k) rows))"
    using f ne idx own k by (simp add: delete_expense_def)
  have after: "expense_id e \<notin> expense_id ` snd `
      set (load_expenses_data uid (Some (drop_row (nat k) rows)))"
    if d: "distinct (map expense_id rows)"
  proof -
    have "snd ` set (load_expenses_data uid (Some (drop_row (nat k) rows)))
            \<subseteq> set (drop_row (nat k) rows)"
      by (auto simp: set_load_expenses_data)
    moreover have "expense_id e \<notin> expense_id ` set (drop_row (nat k) rows)"
      using drop_row_distinct [OF d i] k e by simp
    ultimately show ?thesis by blast
  qed
  show ?thesis
  proof (intro exI [of _ rows] conjI allI impI)
    show "file = Some rows" by (rule f)
    show "in_index k rows" by (rule idx)
    show "rows ! nat k = e" using k e by simp
    show "delete_expense k uid file = (True, Some (drop_row (nat k) rows))" by (rule del)
    show "length (drop_row (nat k) rows) = length rows - 1"
      using length_drop_row [OF i] k by simp
    show "drop_row (nat k) rows ! j = rows ! (if j < nat k then j else Suc j)"
      if "j < length rows - 1" for j
      using nth_drop_row [OF that i] k by simp
    show "expense_id e \<notin> expense_id ` snd `
        set (load_expenses_data uid (Some (drop_row (nat k) rows)))"
      if "distinct (map expense_id rows)"
      using after [OF that] .
  qed
qed

theorem delete_expense_by_position_witness:
  "(0, lunch) \<in> set (load_expenses_data 7 (Some [lunch, taxi])) \<and>
   distinct (map expense_id [lunch, taxi]) \<and>
   delete_expense 0 7 (Some [lunch, taxi]) = (True, Some [taxi]) \<and>
   expense_id lunch \<notin> expense_id ` snd ` set (load_expenses_data 7 (Some [taxi]))"
proof -
  have q: "(0, lunch) \<in> set (load_expenses_data 7 (Some [lunch, taxi]))"
    by (simp add: set_load_expenses_data lunch_def)
  have d: "distinct (map expense_id [lunch, taxi])"
    by (simp add: lunch_def taxi_def)
  from delete_expense_by_position [OF q] d q show ?thesis
    by (auto simp: drop_row_def)
qed

text \<open>
  Claim C5 as stated fails: the only row has the \<open>expense_id\<close> 1 and belongs to user 7, yet
  \<open>delete_expense 1 7\<close> finds no row at position 1, returns false and leaves the row to
  the next query; with a second row behind it, the same call removes that second row,
  whose id is 2.
\<close>

theorem delete_expense_by_id_fails:
  "expense_id lunch = 1 \<and> expense.user_id lunch = 7 \<and>
   delete_expense 1 7 (Some [lunch]) = (False, Some [lunch]) \<and>
   (0, lunch) \<in> set (load_expenses_data 7 (Some [lunch])) \<and>
   delete_expense 1 7 (Some [lunch, taxi]) = (True, Some [lunch])"
  by (simp add: delete_expense_def in_index_def drop_row_def set_load_expenses_data
      lunch_def taxi_def)

subsection \<open>Ownership\<close>

text \<open>
  Claim C6. When the row that a delete or a status update addresses does not exist (no
  file, or no row at the position given) or belongs to another user than the one given,
  \<^verbatim>\<open>delete_expense\<close>, \<^verbatim>\<open>update_backlog_status\<close> and \<^verbatim>\<open>delete_backlog_item\<close> return false and
  leave the file as it was.
\<close>

theorem refused_without_ownership:
  "((case target_row i efile of None \<Rightarrow> True | Some r \<Rightarrow> expense.user_id r \<noteq> uid) \<longrightarrow>
      delete_expense i uid efile = (False, efile)) \<and>
   ((case target_row i bfile of None \<Rightarrow> True | Some t \<Rightarrow> backlog_task.user_id t \<noteq> uid) \<longrightarrow>
      update_backlog_status now i uid new_status bfile = (False, bfile) \<and>
      delete_backlog_item i uid bfile = (False, bfile))"
  by (simp add: target_row_def delete_expense_def update_backlog_status_def
      delete_backlog_item_def Let_def split: option.splits if_splits)

theorem refused_without_ownership_witness:
  "target_row 0 (Some [lunch]) = Some lunch \<and> expense.user_id lunch \<noteq> 8 \<and>
   delete_expense 0 8 (Some [lunch]) = (False, Some [lunch]) \<and>
   target_row 0 (Some [file_taxes]) = Some file_taxes \<and>
   backlog_task.user_id file_taxes \<noteq> 8 \<and>
   update_backlog_status ''2024-06-01 12:00:00'' 0 8 ''Completed'' (Some [file_taxes]) =
     (False, Some [file_taxes]) \<and>
   delete_backlog_item 0 8 (Some [file_taxes]) = (False, Some [file_taxes])"
  using refused_without_ownership
    [where i = 0 and efile = "Some [lunch]" and uid = 8 and bfile = "Some [file_taxes]"
       and now = "''2024-06-01 12:00:00''" and new_status = "''Completed''"]
  by (simp add: target_row_def in_index_def lunch_def file_taxes_def)

subsection \<open>Updating the status of a task\<close>

text \<open>
  Claim C9, as amended. For every task that the caller's query returns under the position
  \<open>k\<close>, \<open>update_backlog_status k\<close> succeeds; afterwards the query returns that row with
  the new status, the row differs from the old one in \<open>status\<close> and in \<open>updated_at\<close> (set
  to the time of the call) and in nothing else, and every other row of the file is as
  before.
\<close>

theorem update_backlog_status_frame:
  assumes "(k, t) \<in> set (load_backlog_data uid file)"
  shows "\<exists>rows.
           file = Some rows \<and> rows ! nat k = t \<and>
           update_backlog_status now k uid new_status file =
             (True, Some (rows[nat k := t\<lparr>status := new_status, updated_at := now\<rparr>])) \<and>
           (k, t\<lparr>status := new_status, updated_at := now\<rparr>)
             \<in> set (load_backlog_data uid
                      (Some (rows[nat k := t\<lparr>status := new_status, updated_at := now\<rparr>]))) \<and>
           (\<forall>j < length rows. j \<noteq> nat k \<longrightarrow>
              rows[nat k := t\<lparr>status := new_status, updated_at := now\<rparr>] ! j = rows ! j)"
proof -
  from assms obtain rows where f: "file = Some rows"
    by (cases "file") (simp_all add: load_backlog_data_None)
  with assms obtain i where i: "i < length rows"
    and k: "k = int i" and t: "t = rows ! i" and own: "backlog_task.user_id (rows ! i) = uid"
    by (auto simp: set_load_backlog_data)
  let ?t' = "t\<lparr>status := new_status, updated_at := now\<rparr>"
  let ?rows' = "rows[nat k := ?t']"
  have ne: "rows \<noteq> []" using i by auto
  have idx: "in_index k rows" using i k by (simp add: in_index_def)
  have upd: "update_backlog_status now k uid new_status file = (True, Some ?rows')"
    using f ne idx own k t by (simp add: update_backlog_status_def Let_def)
  have q: "(k, ?t') \<in> set (load_backlog_data uid (Some ?rows'))"
    unfolding set_load_backlog_data using i k own t by (auto intro!: exI [of _ i])
  show ?thesis
  proof (intro exI [of _ rows] conjI allI impI)
    show "file = Some rows" by (rule f)
    show "rows ! nat k = t" using k t by simp
    show "update_backlog_status now k uid new_status file = (True, Some ?rows')" by (rule upd)
    show "(k, ?t') \<in> set (load_backlog_data uid (Some ?rows'))" by (rule q)
    show "?rows' ! j = rows ! j" if "j < length rows" "j \<noteq> nat k" for j
      using that by simp
  qed
qed

theorem update_backlog_status_frame_witness:
  "(0, file_taxes) \<in> set (load_backlog_data 7 (Some [file_taxes])) \<and>
   update_backlog_status ''2024-06-01 12:00:00'' 0 7 ''Completed'' (Some [file_taxes]) =
     (True, Some [file_taxes\<lparr>status := ''Completed'', updated_at := ''2024-06-01 12:00:00''\<rparr>])"
proof -
  have m: "(0, file_taxes) \<in> set (load_backlog_data 7 (Some [file_taxes]))"
    by (simp add: set_load_backlog_data file_taxes_def)
  from update_backlog_status_frame [OF m, of "''2024-06-01 12:00:00''" "''Completed''"]
  show ?thesis using m by auto
qed

text \<open>
  Claim C9 as stated fails: the change names the status only, yet the update made in June
  also replaces the \<open>updated_at\<close> of the row, which was a time in January.
\<close>

theorem update_backlog_status_stamps_updated_at:
  "update_backlog_status ''2024-06-01 12:00:00'' 0 7 ''Completed'' (Some [file_taxes]) =
     (True, Some [file_taxes\<lparr>status := ''Completed'', updated_at := ''2024-06-01 12:00:00''\<rparr>]) \<and>
   updated_at (file_taxes\<lparr>status := ''Completed'', updated_at := ''2024-06-01 12:00:00''\<rparr>)
     \<noteq> updated_at file_taxes"
  by (simp add: update_backlog_status_def in_index_def file_taxes_def)

subsection \<open>Registration ignores case, login does not\<close>




text \<open>
  On a username column without text (all numbers, or all NA markers) the duplicate check
  raises, and the registration is refused with the error of the \<^verbatim>\<open>except\<close> branch.
\<close>

lemma register_user_raises_without_text:
  assumes "rows \<noteq> []" "\<not> list_ex is_text (read_column (map user.username rows))"
  shows "register_user read_column h now ud (Some rows) =
           (False, Some (Raised ''Registration error: '' AttributeError), Some rows)"
  using assms
  by (simp add: register_user_def check_duplicates_def str_lower_def data_rows_def)


text \<open>
  A stored username that is an NA marker comes back as \<^verbatim>\<open>NaN\<close>, so its case variant
  passes the duplicate check: beside Alice and the user named null, NULL registers.
\<close>

lemma register_user_misses_na_marker:
  "fst (register_user object_column (\<lambda>pw. ''h4'') ''2024-02-02 10:00:00''
          (bob_form\<lparr>user_data.username := ''NULL''\<rparr>) (Some [alice, nobody]))"
  by (simp add: register_user_def check_duplicates_def str_lower_def object_column_def
      na_markers_def data_rows_def alice_def nobody_def bob_form_def Let_def
      py_lower_examples py_strip_examples)




end
